theory Spec2Isabelle
  imports Main
begin

section \<open>Data model\<close>

text \<open>
  The user-account backend: the request handlers of the user controller, the
  duplicate-key error handler and the startup seeding of the admin accounts.

  Strings are \<open>string\<close>. A field that JavaScript would leave \<open>undefined\<close>
  is the empty string: the source only ever tests such fields for falsiness, and
  \<open>undefined\<close> and \<open>""\<close> are both falsy. Points in time are milliseconds since the
  epoch (what \<open>Date.getTime()\<close> returns), as \<open>int\<close>.
\<close>

record user =
  uid :: string
  name :: string
  email :: string
  password :: string
  role :: string
  isVerified :: bool
  isDeleted :: bool
  fcmToken :: string
  image_publicFileURL :: string
  profile_status :: string
  phone :: string
  address :: string
  createdAt :: int
  managerInfoId :: "string option"
  isRequest :: string

record otp_record =
  otp :: string
  expiresAt :: int

text \<open>The payload of a signed token, and of \<open>req.user\<close>: \<open>{id, email, role}\<close>. A
  registration token carries the email only; its other fields are empty.\<close>

record claims =
  c_id :: string
  c_email :: string
  c_role :: string

text \<open>
  A thrown JavaScript error: \<open>new ApiError(code, msg)\<close> has a status code, a plain
  \<open>Error\<close> (or a \<open>TypeError\<close>, or what a library throws) has none.
\<close>

record js_error =
  err_statusCode :: "int option"
  err_message :: string

definition ApiError :: "int \<Rightarrow> string \<Rightarrow> js_error" where
  "ApiError code msg = \<lparr>err_statusCode = Some code, err_message = msg\<rparr>"

definition Error :: "string \<Rightarrow> js_error" where
  "Error msg = \<lparr>err_statusCode = None, err_message = msg\<rparr>"

text \<open>
  The pattern \<open>new ApiError(error.statusCode || 500, error.message || dflt)\<close> of the
  \<open>catch\<close> blocks: \<open>||\<close> takes the right operand when the left one is falsy
  (\<open>undefined\<close>, \<open>0\<close>, the empty string).
\<close>

definition rewrap :: "string \<Rightarrow> js_error \<Rightarrow> js_error" where
  "rewrap dflt e =
     ApiError (case err_statusCode e of None \<Rightarrow> 500 | Some c \<Rightarrow> (if c = 0 then 500 else c))
              (if err_message e = [] then dflt else err_message e)"

section \<open>Number to string\<close>

text \<open>What a template literal prints for an integer: its decimal digits, with a
  minus sign when negative.\<close>

definition digit_char :: "nat \<Rightarrow> char" where
  "digit_char d = ''0123456789'' ! (d mod 10)"

fun show_nat :: "nat \<Rightarrow> string" where
  "show_nat n = (if n < 10 then [digit_char n] else show_nat (n div 10) @ [digit_char n])"

declare show_nat.simps [simp del]

definition show_int :: "int \<Rightarrow> string" where
  "show_int i = (if i < 0 then CHR ''-'' # show_nat (nat (- i)) else show_nat (nat i))"

section \<open>The duplicate-key error handler (errors/handleDuplicateError.ts)\<close>

text \<open>
  The regular expression \<open>/"(.*?)"/\<close>, matched by \<open>String.prototype.match\<close>: the
  leftmost double quote that is followed, before any line terminator, by another
  double quote; the group is the text between the two (\<open>.\<close> matches no line
  terminator, and \<open>*?\<close> stops at the nearest closing quote). \<open>None\<close> is the
  \<open>null\<close> that \<open>match\<close> returns when there is no match.

  A message is the UTF-8 bytes of the JavaScript string. The line terminators of
  ECMAScript are LF, CR, U+2028 and U+2029; the last two are the byte sequences
  E2 80 A8 and E2 80 A9. The double quote, LF and CR are single bytes that occur
  in no longer sequence, and E2 only ever starts a sequence.
\<close>

definition line_terminator_at :: "string \<Rightarrow> bool" where
  "line_terminator_at s =
     (case s of
        [] \<Rightarrow> False
      | c # cs \<Rightarrow>
          c = CHR 0x0A \<or> c = CHR 0x0D \<or>
          (c = CHR 0xE2 \<and>
             (take 2 cs = [CHR 0x80, CHR 0xA8] \<or> take 2 cs = [CHR 0x80, CHR 0xA9])))"

fun has_line_terminator :: "string \<Rightarrow> bool" where
  "has_line_terminator [] = False"
| "has_line_terminator (c # cs) = (line_terminator_at (c # cs) \<or> has_line_terminator cs)"

fun lazy_group :: "string \<Rightarrow> string option" where
  "lazy_group [] = None"
| "lazy_group (c # cs) =
     (if c = CHR 0x22 then Some []
      else if line_terminator_at (c # cs) then None
      else map_option ((#) c) (lazy_group cs))"

fun match_quoted :: "string \<Rightarrow> string option" where
  "match_quoted [] = None"
| "match_quoted (c # cs) =
     (if c = CHR 0x22
      then (case lazy_group cs of Some g \<Rightarrow> Some g | None \<Rightarrow> match_quoted cs)
      else match_quoted cs)"

record IErrorResponse =
  er_success :: bool
  er_statusCode :: int
  er_errorType :: string
  er_errorMessage :: string
  er_errorDetails :: string

text \<open>
  \<open>matches![1]\<close> on a \<open>null\<close> match is a \<open>TypeError\<close> at run time (the \<open>!\<close> is
  erased by the compiler): the handler throws instead of returning.
\<close>

definition handlerDuplicateError :: "string \<Rightarrow> js_error + IErrorResponse" where
  "handlerDuplicateError err_msg =
     (case match_quoted err_msg of
        None \<Rightarrow> Inl (Error ''Cannot read properties of null (reading '1')'')
      | Some g \<Rightarrow> Inr \<lparr>er_success = False, er_statusCode = 409,
                       er_errorType = ''Duplicate Error'',
                       er_errorMessage = g @ '' is already exists!'',
                       er_errorDetails = err_msg\<rparr>)"

section \<open>Stores, effects and collaborators\<close>

text \<open>
  The user collection is a list of documents (\<open>findOne\<close> returns the first match);
  the OTP collection holds one record per email (upsert), so it is a map. What a
  handler does to the outside is appended to \<open>trace\<close>, in the order of execution.
\<close>

record pagination =
  totalPage :: int
  currentPage :: int
  prevPage :: int
  nextPage :: int
  limit :: int
  totalItem :: int

record manager_info =
  mi_type :: string
  mi_businessAddress :: string
  mi_websiteLink :: string
  mi_governMentImage :: string

record user_row =
  row_id :: string
  row_image :: string
  row_name :: string
  row_email :: string
  row_role :: string
  row_phone :: string
  row_address :: string
  row_managerInfo :: "(manager_info \<times> string) option"
  row_createdAt :: int

text \<open>The user projections of the two login responses (no password field).\<close>

record login_user =
  lu_id :: string
  lu_name :: string
  lu_email :: string
  lu_image :: string
  lu_role :: string
  lu_profile_status :: string

record admin_user =
  au_id :: string
  au_name :: string
  au_email :: string
  au_role :: string
  au_image :: string

text \<open>The \<open>data\<close> of a response: \<open>null\<close>, \<open>{token}\<close>, \<open>{role, token}\<close>,
  \<open>{user, token}\<close>, or an array of rows.\<close>

datatype payload =
    Null
  | Token string
  | RoleToken string string
  | LoginData login_user string
  | AdminLoginData admin_user string
  | UserList "user_row list"

record response =
  statusCode :: int
  success :: bool
  message :: string
  data :: payload
  pages :: "pagination option"

datatype mail = ResendOTPEmail | OTPEmailVerification | ResetOTPEmail

datatype event =
    Responded response
  | RespondedError js_error
  | Mailed mail string string
  | SavedUser string
  | SavedOTP string

record world =
  users :: "user list"
  otps :: "string \<rightharpoonup> otp_record"
  trace :: "event list"

datatype outcome = Completed | Threw js_error

text \<open>
  The collaborators whose code is outside the repository's sources (token signing,
  the argon2 library, the lock middleware, mail transport, id generation, the
  filter of the list query) are parameters. \<open>argon2.verify\<close> returns a boolean or
  throws (on a stored string that is not an argon2 hash); \<open>verifyToken\<close> returns
  the claims or throws.
\<close>

record env =
  verifyToken :: "string \<Rightarrow> js_error + claims"
  generateToken :: "claims \<Rightarrow> string"
  generateRegisterToken :: "string \<Rightarrow> string"
  argon2_verify :: "string \<Rightarrow> string \<Rightarrow> js_error + bool"
  argon2_hash :: "string \<Rightarrow> string"
  hashPassword :: "string \<Rightarrow> string"
  validateUserLockStatus :: "user \<Rightarrow> js_error option"
  sendResetOTPEmail :: "string \<Rightarrow> string \<Rightarrow> string \<Rightarrow> js_error option"
  newObjectId :: "user list \<Rightarrow> string"
  listFilter :: "string \<Rightarrow> string \<Rightarrow> string \<Rightarrow> string \<Rightarrow> string \<Rightarrow> user \<Rightarrow> bool"
  populateManagerInfo :: "string \<Rightarrow> manager_info option"

text \<open>
  The parts of an Express request the handlers read. \<open>query_page\<close> and
  \<open>query_limit\<close> are what \<open>parseInt\<close> returns on the query parameter, \<open>None\<close>
  for \<open>NaN\<close>.
\<close>

record request =
  authorization :: string
  req_user :: claims
  body_email :: string
  body_password :: string
  body_fcmToken :: string
  body_oldPassword :: string
  body_newPassword :: string
  query_id :: string
  query_page :: "int option"
  query_limit :: "int option"
  query_date :: string
  query_name :: string
  query_email :: string
  query_role :: string
  query_requestStatus :: string

definition sendResponse :: "response \<Rightarrow> world \<Rightarrow> world" where
  "sendResponse r w = w\<lparr>trace := trace w @ [Responded r]\<rparr>"

definition sendError :: "js_error \<Rightarrow> world \<Rightarrow> world" where
  "sendError e w = w\<lparr>trace := trace w @ [RespondedError e]\<rparr>"

definition sendMail :: "mail \<Rightarrow> string \<Rightarrow> string \<Rightarrow> world \<Rightarrow> world" where
  "sendMail k recipient code w = w\<lparr>trace := trace w @ [Mailed k recipient code]\<rparr>"

text \<open>Modelled from the spec: \<open>findUserByEmail\<close> and \<open>findUserById\<close> of user.utils
  (not among the sources), "find by id/email": the first document with that key.\<close>

definition findUserByEmail :: "string \<Rightarrow> user list \<Rightarrow> user option" where
  "findUserByEmail e us = find (\<lambda>u. email u = e) us"

definition findUserById :: "string \<Rightarrow> user list \<Rightarrow> user option" where
  "findUserById i us = find (\<lambda>u. uid u = i) us"

text \<open>\<open>user.save()\<close> on a document read from the collection: the stored document
  with that \<open>_id\<close> is replaced.\<close>

fun replace_user :: "user \<Rightarrow> user list \<Rightarrow> user list" where
  "replace_user v [] = []"
| "replace_user v (u # us) = (if uid u = uid v then v # us else u # replace_user v us)"

definition save :: "user \<Rightarrow> world \<Rightarrow> world" where
  "save v w = w\<lparr>users := replace_user v (users w), trace := trace w @ [SavedUser (uid v)]\<rparr>"

text \<open>Modelled from the spec: \<open>saveOTP\<close> of user.utils (not among the sources),
  "persist/update the OTP record with a fixed short expiry (60 seconds)", upsert
  by email.\<close>

definition saveOTP :: "int \<Rightarrow> string \<Rightarrow> string \<Rightarrow> world \<Rightarrow> world" where
  "saveOTP now e code w =
     w\<lparr>otps := (otps w)(e \<mapsto> \<lparr>otp = code, expiresAt = now + 60 * 1000\<rparr>),
       trace := trace w @ [SavedOTP e]\<rparr>"

text \<open>Modelled from the spec: \<open>userDelete\<close> of user.service (not among the sources),
  "deletion flips isDeleted rather than removing the row".\<close>

fun flag_deleted :: "string \<Rightarrow> user list \<Rightarrow> user list" where
  "flag_deleted i [] = []"
| "flag_deleted i (u # us) =
     (if uid u = i then u\<lparr>isDeleted := True\<rparr> # us else u # flag_deleted i us)"

definition userDelete :: "string \<Rightarrow> string \<Rightarrow> world \<Rightarrow> world" where
  "userDelete i e w = w\<lparr>users := flag_deleted i (users w), trace := trace w @ [SavedUser i]\<rparr>"

text \<open>The cooldown test shared by \<open>resendOTP\<close> and \<open>forgotPassword\<close>:
  \<open>Math.floor((expiresAt.getTime() - now.getTime()) / 1000)\<close>.\<close>

definition remainingTime :: "int \<Rightarrow> int \<Rightarrow> int" where
  "remainingTime expires now = (expires - now) div 1000"

text \<open>\<open>otpRecord && otpRecord.expiresAt > now\<close>: the seconds to wait when the
  test holds, \<open>None\<close> when it does not.\<close>

definition cooldown :: "int \<Rightarrow> otp_record option \<Rightarrow> int option" where
  "cooldown now r =
     (case r of
        None \<Rightarrow> None
      | Some otpRecord \<Rightarrow>
          if expiresAt otpRecord > now
          then Some (remainingTime (expiresAt otpRecord) now) else None)"

definition cooldown_message :: "int \<Rightarrow> string" where
  "cooldown_message secs =
     ''You can't request another OTP before '' @ show_int secs @ '' seconds.''"

section \<open>The handlers of the user controller\<close>

text \<open>
  Each handler takes the collaborators, the request and the world, and returns how
  it ended (\<open>Completed\<close>, or \<open>Threw\<close> the error that leaves the handler) with the
  world it left. \<open>now\<close> is the \<open>new Date()\<close> the handler reads and \<open>code\<close> the value
  \<open>generateOTP()\<close> draws.
\<close>

definition resendOTP :: "env \<Rightarrow> int \<Rightarrow> string \<Rightarrow> request \<Rightarrow> world \<Rightarrow> outcome \<times> world" where
  "resendOTP E now code req w =
     (case verifyToken E (authorization req) of
        Inl e \<Rightarrow> (Threw (ApiError 401 ''Invalid token''), w)
      | Inr decoded \<Rightarrow>
          (case cooldown now (otps w (c_email decoded)) of
             Some secs \<Rightarrow> (Threw (ApiError 403 (cooldown_message secs)), w)
           | None \<Rightarrow>
               (Completed,
                saveOTP now (c_email decoded) code
                  (sendMail ResendOTPEmail (c_email decoded) code
                    (sendResponse \<lparr>statusCode = 200, success = True,
                        message = ''A new OTP has been sent to your email.'',
                        data = Null, pages = None\<rparr> w)))))"

definition loginUser :: "env \<Rightarrow> int \<Rightarrow> string \<Rightarrow> request \<Rightarrow> world \<Rightarrow> outcome \<times> world" where
  "loginUser E now code req w =
     (case findUserByEmail (body_email req) (users w) of
        None \<Rightarrow> (Threw (ApiError 404 ''This account does not exist.''), w)
      | Some usr \<Rightarrow>
          if isDeleted usr then (Threw (ApiError 404 ''your account is deleted.''), w)
          else
            (case validateUserLockStatus E usr of
               Some e \<Rightarrow> (Threw e, w)
             | None \<Rightarrow>
                 let token = generateToken E \<lparr>c_id = uid usr, c_email = email usr, c_role = role usr\<rparr>
                 in if \<not> isVerified usr
                    then (Completed,
                          saveOTP now (body_email req) code
                            (sendMail OTPEmailVerification (body_email req) code
                              (sendResponse \<lparr>statusCode = 401, success = False,
                                  message = ''We've sent an OTP to your email to verify your profile.'',
                                  data = RoleToken (role usr) token, pages = None\<rparr> w)))
                    else
                      (case argon2_verify E (password usr) (body_password req) of
                         Inl e \<Rightarrow> (Threw e, w)
                       | Inr isPasswordValid \<Rightarrow>
                           if \<not> isPasswordValid then (Threw (ApiError 401 ''Wrong password!''), w)
                           else (Completed,
                                 save (usr\<lparr>fcmToken := body_fcmToken req\<rparr>)
                                   (sendResponse \<lparr>statusCode = 200, success = True,
                                       message = ''Login complete!'',
                                       data = LoginData
                                         \<lparr>lu_id = uid usr, lu_name = name usr, lu_email = email usr,
                                          lu_image = image_publicFileURL usr, lu_role = role usr,
                                          lu_profile_status = profile_status usr\<rparr> token,
                                       pages = None\<rparr> w)))))"

definition forgotPassword :: "env \<Rightarrow> int \<Rightarrow> string \<Rightarrow> request \<Rightarrow> world \<Rightarrow> outcome \<times> world" where
  "forgotPassword E now code req w =
     (if body_email req = [] then (Threw (ApiError 400 ''Please provide an email.''), w)
      else
        (case findUserByEmail (body_email req) (users w) of
           None \<Rightarrow> (Threw (ApiError 404 ''This account does not exist.''), w)
         | Some usr \<Rightarrow>
                (case cooldown now (otps w (body_email req)) of
                   Some secs \<Rightarrow> (Threw (ApiError 403 (cooldown_message secs)), w)
                 | None \<Rightarrow>
                     let w1 = sendResponse \<lparr>statusCode = 200, success = True,
                                message = ''OTP sent to your email. Please check!'',
                                data = Token (generateRegisterToken E (body_email req)),
                                pages = None\<rparr> w
                     in (case sendResetOTPEmail E (body_email req) code (name usr) of
                           Some e \<Rightarrow> (Threw e, w1)
                         | None \<Rightarrow>
                             (Completed,
                              saveOTP now (body_email req) code
                                (sendMail ResetOTPEmail (body_email req) code w1))))))"

definition resetPassword :: "env \<Rightarrow> request \<Rightarrow> world \<Rightarrow> outcome \<times> world" where
  "resetPassword E req w =
     (case verifyToken E (authorization req) of
        Inl e \<Rightarrow> (Completed, sendError e w)
      | Inr decoded \<Rightarrow>
          if c_role decoded = [] then (Threw (ApiError 401 ''Invalid token. Please try again.''), w)
          else if body_password req = [] then (Threw (ApiError 400 ''Please provide  password ''), w)
          else
            let w1 = sendResponse \<lparr>statusCode = 200, success = True,
                       message = ''Password reset successfully.'', data = Null, pages = None\<rparr> w
            in (case findUserByEmail (c_email decoded) (users w1) of
                  None \<Rightarrow>
                    (Threw (ApiError 404 ''User not found. Are you attempting something sneaky?''), w1)
                | Some usr \<Rightarrow>
                    (Completed, save (usr\<lparr>password := hashPassword E (body_password req)\<rparr>) w1)))"

text \<open>A \<open>try\<close> block whose \<open>catch\<close> rethrows the error rewrapped.\<close>

definition catch_rewrap :: "string \<Rightarrow> outcome \<times> world \<Rightarrow> outcome \<times> world" where
  "catch_rewrap dflt r =
     (case fst r of Completed \<Rightarrow> r | Threw e \<Rightarrow> (Threw (rewrap dflt e), snd r))"

definition deleteUser :: "request \<Rightarrow> world \<Rightarrow> outcome \<times> world" where
  "deleteUser req w =
     catch_rewrap ''Unexpected error occurred while deleting the user.''
       (case findUserById (query_id req) (users w) of
          None \<Rightarrow> (Threw (ApiError 404 ''User not found.''), w)
        | Some deleteableuser \<Rightarrow>
            if isDeleted deleteableuser
            then (Threw (ApiError 404 ''This account is already deleted.''), w)
            else if c_id (req_user req) \<noteq> query_id req \<or> c_role (req_user req) \<noteq> ''admin''
            then (Threw (ApiError 403 ''You cannot delete this account. Please contact support''), w)
            else (Completed,
                  sendResponse \<lparr>statusCode = 200, success = True,
                      message = ''Account deleted successfully'', data = Null, pages = None\<rparr>
                    (userDelete (query_id req) (email deleteableuser) w)))"

definition changePassword :: "env \<Rightarrow> request \<Rightarrow> world \<Rightarrow> outcome \<times> world" where
  "changePassword E req w =
     catch_rewrap ''Failed to change password.''
       (if body_oldPassword req = [] \<or> body_newPassword req = []
        then (Threw (Error ''Please provide both old password and new password.''), w)
        else
          (case findUserByEmail (c_email (req_user req)) (users w) of
             None \<Rightarrow> (Threw (Error ''User not found.''), w)
           | Some usr \<Rightarrow>
               (case argon2_verify E (password usr) (body_oldPassword req) of
                  Inl e \<Rightarrow> (Threw e, w)
                | Inr isMatch \<Rightarrow>
                    if \<not> isMatch then (Threw (ApiError 401 ''Old password is incorrect.''), w)
                    else (Completed,
                          sendResponse \<lparr>statusCode = 200, success = True,
                              message = ''You have successfully changed your password.'',
                              data = Null, pages = None\<rparr>
                            (save (usr\<lparr>password := argon2_hash E (body_newPassword req)\<rparr>) w)))))"

definition adminloginUser :: "env \<Rightarrow> request \<Rightarrow> world \<Rightarrow> outcome \<times> world" where
  "adminloginUser E req w =
     catch_rewrap ''An error occurred during admin login.''
       (case findUserByEmail (body_email req) (users w) of
          None \<Rightarrow> (Threw (ApiError 404 ''This account does not exist.''), w)
        | Some usr \<Rightarrow>
            if role usr \<noteq> ''admin'' then (Threw (ApiError 403 ''Only admins can login.''), w)
            else
              (case argon2_verify E (password usr) (body_password req) of
                 Inl e \<Rightarrow> (Threw e, w)
               | Inr isPasswordValid \<Rightarrow>
                   if \<not> isPasswordValid then (Threw (ApiError 401 ''Wrong password!''), w)
                   else (Completed,
                         sendResponse \<lparr>statusCode = 200, success = True,
                             message = ''Login complete!'',
                             data = AdminLoginData
                               \<lparr>au_id = uid usr, au_name = name usr, au_email = email usr,
                                au_role = role usr, au_image = image_publicFileURL usr\<rparr>
                               (generateToken E
                                  \<lparr>c_id = uid usr, c_email = email usr, c_role = role usr\<rparr>),
                             pages = None\<rparr> w)))"

subsection \<open>The admin list\<close>

text \<open>Modelled from the spec: \<open>getUserList\<close> of user.service (not among the sources),
  "a paginated filtered query returning {items, totalCount, totalPages}": the
  page is \<open>limit\<close> documents after \<open>skip\<close> of those that pass the filter, the
  count is of all that pass, and the pages are \<open>Math.ceil(totalCount / limit)\<close>.\<close>

definition getUserList ::
  "env \<Rightarrow> int \<Rightarrow> int \<Rightarrow> string \<Rightarrow> string \<Rightarrow> string \<Rightarrow> string \<Rightarrow> string \<Rightarrow> user list
     \<Rightarrow> user list \<times> int \<times> int" where
  "getUserList E skip lim d n e r st us =
     (let matching = filter (listFilter E d n e r st) us;
          totalUsers = int (length matching)
      in (take (nat lim) (drop (nat skip) matching), totalUsers, - ((- totalUsers) div lim)))"

text \<open>The row of one user in the list response, after \<open>populate\<close> has replaced
  \<open>managerInfoId\<close> by the referenced document (or \<open>null\<close>).\<close>

definition user_row_of :: "env \<Rightarrow> user \<Rightarrow> user_row" where
  "user_row_of E u =
     \<lparr>row_id = uid u, row_image = image_publicFileURL u, row_name = name u,
      row_email = email u, row_role = role u, row_phone = phone u, row_address = address u,
      row_managerInfo =
        (case Option.bind (managerInfoId u) (populateManagerInfo E) of
           None \<Rightarrow> None
         | Some m \<Rightarrow> Some (m, isRequest u)),
      row_createdAt = createdAt u\<rparr>"

text \<open>\<open>parseInt(q) || dflt\<close>: \<open>NaN\<close> and \<open>0\<close> are falsy.\<close>

definition or_default :: "int option \<Rightarrow> int \<Rightarrow> int" where
  "or_default v dflt = (case v of None \<Rightarrow> dflt | Some i \<Rightarrow> (if i = 0 then dflt else i))"

text \<open>\<open>x ?? 1\<close> on a page number that may be \<open>null\<close>.\<close>

definition nullish_one :: "int option \<Rightarrow> int" where
  "nullish_one v = (case v of None \<Rightarrow> 1 | Some i \<Rightarrow> i)"

definition getAllUsers :: "env \<Rightarrow> request \<Rightarrow> world \<Rightarrow> outcome \<times> world" where
  "getAllUsers E req w =
     (case verifyToken E (authorization req) of
        Inl e \<Rightarrow> (Completed, sendError e w)
      | Inr decoded \<Rightarrow>
          (case findUserById (c_id decoded) (users w) of
             None \<Rightarrow> (Threw (ApiError 404 ''This admin account does not exist.''), w)
           | Some usr \<Rightarrow>
               let page = or_default (query_page req) 1;
                   lim = or_default (query_limit req) 10;
                   skip = (page - 1) * lim
               in catch_rewrap ''Failed to retrieve users.''
                    (case getUserList E skip lim (query_date req) (query_name req)
                            (query_email req) (query_role req) (query_requestStatus req) (users w) of
                       (found, totalUsers, totalPages) \<Rightarrow>
                         let prev = (if page > 1 then Some (page - 1) else None);
                             nxt = (if page < totalPages then Some (page + 1) else None)
                         in if length found = 0
                            then (Completed,
                                  sendResponse \<lparr>statusCode = 204, success = True,
                                      message = ''No user found based on your search.'',
                                      data = UserList [], pages = None\<rparr> w)
                            else (Completed,
                                  sendResponse \<lparr>statusCode = 200, success = True,
                                      message = ''User list retrieved successfully'',
                                      data = UserList (map (user_row_of E) found),
                                      pages = Some \<lparr>totalPage = totalPages, currentPage = page,
                                                    prevPage = nullish_one prev,
                                                    nextPage = nullish_one nxt,
                                                    limit = lim, totalItem = totalUsers\<rparr>\<rparr> w))))"

section \<open>Seeding the admin accounts (DB/index.ts)\<close>

record seed =
  sd_name :: string
  sd_email :: string
  sd_password :: string
  sd_role :: string
  sd_isDeleted :: bool

definition admin :: seed where
  "admin = \<lparr>sd_name = ''Bienvenue'', sd_email = ''showershareny@gmail.com'',
            sd_password = ''1qazxsw2'', sd_role = ''admin'', sd_isDeleted = False\<rparr>"

definition admin2 :: seed where
  "admin2 = \<lparr>sd_name = ''admin'', sd_email = ''admin@gmail.com'',
             sd_password = ''1qazxsw2'', sd_role = ''admin'', sd_isDeleted = False\<rparr>"

text \<open>Modelled from the spec: \<open>UserModel.create\<close> on the schema of user.model (not
  among the sources): a new document with a fresh id, the fields given, and the
  others at their defaults (unverified, no image, no device token, created
  \<open>now\<close>), added to the collection.\<close>

definition UserModel_create :: "env \<Rightarrow> int \<Rightarrow> seed \<Rightarrow> world \<Rightarrow> world" where
  "UserModel_create E now d w =
     w\<lparr>users := users w @
          [\<lparr>uid = newObjectId E (users w), name = sd_name d, email = sd_email d,
            password = sd_password d, role = sd_role d, isVerified = False,
            isDeleted = sd_isDeleted d, fcmToken = [], image_publicFileURL = [],
            profile_status = [], phone = [], address = [], createdAt = now,
            managerInfoId = None, isRequest = []\<rparr>],
       trace := trace w @ [SavedUser (newObjectId E (users w))]\<rparr>"

text \<open>The body of the \<open>for\<close> loop, and the loop over \<open>[admin, admin2]\<close>. The
  \<open>console.log\<close> lines are left out.\<close>

definition seedAdmin :: "env \<Rightarrow> int \<Rightarrow> seed \<Rightarrow> world \<Rightarrow> world" where
  "seedAdmin E now adminData w =
     (case findUserByEmail (sd_email adminData) (users w) of
        None \<Rightarrow> UserModel_create E now (adminData\<lparr>sd_password := hashPassword E (sd_password adminData)\<rparr>) w
      | Some isAdminExists \<Rightarrow> w)"

fun seedLoop :: "env \<Rightarrow> int \<Rightarrow> seed list \<Rightarrow> world \<Rightarrow> world" where
  "seedLoop E now [] w = w"
| "seedLoop E now (adminData # rest) w = seedLoop E now rest (seedAdmin E now adminData w)"

definition seedSuperAdmin :: "env \<Rightarrow> int \<Rightarrow> world \<Rightarrow> world" where
  "seedSuperAdmin E now w = seedLoop E now [admin, admin2] w"

section \<open>Example data\<close>

text \<open>One instance of the collaborators, a user, a request and a world, on which
  the theorems below are instantiated.\<close>

definition example_env :: env where
  "example_env =
     \<lparr>verifyToken = (\<lambda>t. if t = [] then Inl (Error ''jwt must be provided'')
                         else Inr \<lparr>c_id = ''a1'', c_email = t, c_role = ''admin''\<rparr>),
      generateToken = (\<lambda>c. ''session:'' @ c_email c),
      generateRegisterToken = (\<lambda>e. ''register:'' @ e),
      argon2_verify = (\<lambda>h p. if h = [] then Inl (Error ''pchstr must contain a $ as first char'')
                              else Inr (h = ''$argon2id$'' @ p)),
      argon2_hash = (\<lambda>p. ''$argon2id$'' @ p),
      hashPassword = (\<lambda>p. ''$argon2id$'' @ p),
      validateUserLockStatus = (\<lambda>u. None),
      sendResetOTPEmail = (\<lambda>e c n. None),
      newObjectId = (\<lambda>us. ''id'' @ show_nat (length us)),
      listFilter = (\<lambda>d n e r st u. True),
      populateManagerInfo = (\<lambda>i. None)\<rparr>"

definition example_user :: user where
  "example_user =
     \<lparr>uid = ''a1'', name = ''Ann'', email = ''ann@example.com'',
      password = ''$argon2id$secret'', role = ''admin'', isVerified = True,
      isDeleted = False, fcmToken = [], image_publicFileURL = [], profile_status = [],
      phone = [], address = [], createdAt = 0, managerInfoId = None, isRequest = []\<rparr>"

definition example_request :: request where
  "example_request =
     \<lparr>authorization = ''ann@example.com'',
      req_user = \<lparr>c_id = ''a1'', c_email = ''ann@example.com'', c_role = ''admin''\<rparr>,
      body_email = ''ann@example.com'', body_password = ''secret'', body_fcmToken = ''device-1'',
      body_oldPassword = ''secret'', body_newPassword = ''better'',
      query_id = ''a1'', query_page = Some 1, query_limit = Some 10, query_date = [],
      query_name = [], query_email = [], query_role = [], query_requestStatus = []\<rparr>"

definition world_of :: "user list \<Rightarrow> world" where
  "world_of us = \<lparr>users = us, otps = Map.empty, trace = []\<rparr>"

definition unverified_user :: user where
  "unverified_user = example_user\<lparr>isVerified := False, password := []\<rparr>"

definition cooling_world :: world where
  "cooling_world =
     \<lparr>users = [example_user],
      otps = [''ann@example.com'' \<mapsto> \<lparr>otp = ''111111'', expiresAt = 65000\<rparr>],
      trace = []\<rparr>"

definition listed_world :: world where
  "listed_world = world_of (replicate 25 example_user)"

definition seeded_world :: world where
  "seeded_world =
     world_of [example_user\<lparr>email := ''showershareny@gmail.com''\<rparr>,
               example_user\<lparr>uid := ''a2'', email := ''admin@gmail.com''\<rparr>]"

section \<open>Login of a soft-deleted user\<close>

text \<open>\<open>loginUser\<close> refuses a soft-deleted account before anything else happens.\<close>

lemma loginUser_deleted:
  assumes "findUserByEmail (body_email req) (users w) = Some usr" and "isDeleted usr"
  shows "loginUser E now code req w = (Threw (ApiError 404 ''your account is deleted.''), w)"
  using assms by (simp add: loginUser_def)

text \<open>
  C1: a soft-deleted user never obtains a token through a login operation.
  \<open>loginUser\<close> has the guard (lemma above); \<open>adminloginUser\<close> has none: a
  soft-deleted admin who gives the right password is answered 200 with a fresh
  session token.
\<close>

theorem adminloginUser_deleted_admin:
  "adminloginUser example_env example_request (world_of [example_user\<lparr>isDeleted := True\<rparr>]) =
     (Completed,
      \<lparr>users = [example_user\<lparr>isDeleted := True\<rparr>], otps = Map.empty,
       trace = [Responded \<lparr>statusCode = 200, success = True, message = ''Login complete!'',
                  data = AdminLoginData
                           \<lparr>au_id = ''a1'', au_name = ''Ann'', au_email = ''ann@example.com'',
                            au_role = ''admin'', au_image = []\<rparr> ''session:ann@example.com'',
                  pages = None\<rparr>]\<rparr>)"
  by (simp add: adminloginUser_def catch_rewrap_def findUserByEmail_def example_env_def
      example_user_def example_request_def world_of_def sendResponse_def)

text \<open>
  C2: \<open>forgotPassword\<close> for the email of a soft-deleted user fails, returns no token,
  generates no OTP and sends no mail. The handler only tests that the user exists:
  for a soft-deleted user with no unexpired OTP it answers 200 with a registration
  token, mails the reset code and stores the OTP.
\<close>

theorem forgotPassword_deleted_user:
  "forgotPassword example_env 5000 ''123456'' example_request
       (world_of [example_user\<lparr>isDeleted := True\<rparr>]) =
     (Completed,
      \<lparr>users = [example_user\<lparr>isDeleted := True\<rparr>],
       otps = [''ann@example.com'' \<mapsto> \<lparr>otp = ''123456'', expiresAt = 65000\<rparr>],
       trace = [Responded \<lparr>statusCode = 200, success = True,
                  message = ''OTP sent to your email. Please check!'',
                  data = Token ''register:ann@example.com'', pages = None\<rparr>,
                Mailed ResetOTPEmail ''ann@example.com'' ''123456'',
                SavedOTP ''ann@example.com'']\<rparr>)"
  by (simp add: forgotPassword_def findUserByEmail_def cooldown_def example_env_def
      example_user_def example_request_def world_of_def sendResponse_def sendMail_def
      saveOTP_def Let_def)

section \<open>Login of an unverified user\<close>

text \<open>
  C3: when the user found is neither soft-deleted nor locked and is not verified,
  \<open>loginUser\<close> answers 401 (not 200) with \<open>data = {role, token}\<close>, then mails and
  stores a fresh OTP, and it completes without throwing. Nothing is assumed about the stored
  password, the submitted password or \<open>argon2.verify\<close>, and replacing the last two
  by anything changes nothing: the password is not looked at.
\<close>

theorem loginUser_unverified:
  assumes "findUserByEmail (body_email req) (users w) = Some usr"
    and "\<not> isDeleted usr"
    and "validateUserLockStatus E usr = None"
    and "\<not> isVerified usr"
  shows "loginUser E now code req w =
           (Completed,
            saveOTP now (body_email req) code
              (sendMail OTPEmailVerification (body_email req) code
                (sendResponse
                   \<lparr>statusCode = 401, success = False,
                    message = ''We've sent an OTP to your email to verify your profile.'',
                    data = RoleToken (role usr)
                             (generateToken E \<lparr>c_id = uid usr, c_email = email usr, c_role = role usr\<rparr>),
                    pages = None\<rparr> w)))
         \<and> (\<forall>v p. loginUser (E\<lparr>argon2_verify := v\<rparr>) now code (req\<lparr>body_password := p\<rparr>) w
                    = loginUser E now code req w)"
  using assms by (simp add: loginUser_def Let_def)

theorem loginUser_unverified_witness:
  "findUserByEmail (body_email example_request) (users (world_of [unverified_user]))
     = Some unverified_user
   \<and> \<not> isDeleted unverified_user
   \<and> validateUserLockStatus example_env unverified_user = None
   \<and> \<not> isVerified unverified_user
   \<and> loginUser example_env 5000 ''123456'' example_request (world_of [unverified_user]) =
     (Completed,
      \<lparr>users = [unverified_user],
       otps = [''ann@example.com'' \<mapsto> \<lparr>otp = ''123456'', expiresAt = 65000\<rparr>],
       trace = [Responded \<lparr>statusCode = 401, success = False,
                  message = ''We've sent an OTP to your email to verify your profile.'',
                  data = RoleToken ''admin'' ''session:ann@example.com'', pages = None\<rparr>,
                Mailed OTPEmailVerification ''ann@example.com'' ''123456'',
                SavedOTP ''ann@example.com'']\<rparr>)
   \<and> loginUser (example_env\<lparr>argon2_verify := \<lambda>h p. Inl (Error ''broken'')\<rparr>) 5000 ''123456''
        (example_request\<lparr>body_password := []\<rparr>) (world_of [unverified_user])
     = loginUser example_env 5000 ''123456'' example_request (world_of [unverified_user])"
proof -
  let ?w = "world_of [unverified_user]"
  have h1: "findUserByEmail (body_email example_request) (users ?w) = Some unverified_user"
    by (simp add: findUserByEmail_def example_request_def world_of_def unverified_user_def
        example_user_def)
  have h2: "\<not> isDeleted unverified_user"
    by (simp add: unverified_user_def example_user_def)
  have h3: "validateUserLockStatus example_env unverified_user = None"
    by (simp add: example_env_def)
  have h4: "\<not> isVerified unverified_user"
    by (simp add: unverified_user_def)
  note t = loginUser_unverified [OF h1 h2 h3 h4, of 5000 "''123456''"]
  have v: "saveOTP 5000 (body_email example_request) ''123456''
              (sendMail OTPEmailVerification (body_email example_request) ''123456''
                (sendResponse
                   \<lparr>statusCode = 401, success = False,
                    message = ''We've sent an OTP to your email to verify your profile.'',
                    data = RoleToken (role unverified_user)
                             (generateToken example_env
                                \<lparr>c_id = uid unverified_user, c_email = email unverified_user,
                                 c_role = role unverified_user\<rparr>),
                    pages = None\<rparr> ?w))
           = \<lparr>users = [unverified_user],
       otps = [''ann@example.com'' \<mapsto> \<lparr>otp = ''123456'', expiresAt = 65000\<rparr>],
       trace = [Responded \<lparr>statusCode = 401, success = False,
                  message = ''We've sent an OTP to your email to verify your profile.'',
                  data = RoleToken ''admin'' ''session:ann@example.com'', pages = None\<rparr>,
                Mailed OTPEmailVerification ''ann@example.com'' ''123456'',
                SavedOTP ''ann@example.com'']\<rparr>"
    by (simp add: saveOTP_def sendMail_def sendResponse_def world_of_def example_request_def
        example_env_def unverified_user_def example_user_def)
  from t have c1: "loginUser example_env 5000 ''123456'' example_request ?w =
     (Completed,
      \<lparr>users = [unverified_user],
       otps = [''ann@example.com'' \<mapsto> \<lparr>otp = ''123456'', expiresAt = 65000\<rparr>],
       trace = [Responded \<lparr>statusCode = 401, success = False,
                  message = ''We've sent an OTP to your email to verify your profile.'',
                  data = RoleToken ''admin'' ''session:ann@example.com'', pages = None\<rparr>,
                Mailed OTPEmailVerification ''ann@example.com'' ''123456'',
                SavedOTP ''ann@example.com'']\<rparr>)"
    unfolding v by (rule conjunct1)
  from t have c2: "loginUser (example_env\<lparr>argon2_verify := \<lambda>h p. Inl (Error ''broken'')\<rparr>)
        5000 ''123456'' (example_request\<lparr>body_password := []\<rparr>) ?w
     = loginUser example_env 5000 ''123456'' example_request ?w"
    by blast
  show ?thesis using h1 h2 h3 h4 c1 c2 by blast
qed

section \<open>The OTP cooldown\<close>

lemma remainingTime_nonneg: "now < e \<Longrightarrow> 0 \<le> remainingTime e now"
  by (simp add: remainingTime_def)

lemma remainingTime_le_ttl:
  "e = t0 + ttl * 1000 \<Longrightarrow> t0 \<le> now \<Longrightarrow> remainingTime e now \<le> ttl"
proof -
  assume a: "e = t0 + ttl * 1000" "t0 \<le> now"
  have "(e - now) div 1000 \<le> (ttl * 1000) div 1000"
    using a by (intro zdiv_mono1) auto
  then show ?thesis by (simp add: remainingTime_def)
qed

lemma remainingTime_antimono:
  "now \<le> later \<Longrightarrow> remainingTime e later \<le> remainingTime e now"
  unfolding remainingTime_def by (intro zdiv_mono1) auto

lemma remainingTime_second:
  "remainingTime e (now + 1000) = remainingTime e now - 1"
proof -
  have "(e - (now + 1000)) div 1000 = ((e - now) + (- 1) * 1000) div 1000"
    by simp
  also have "\<dots> = (- 1) + (e - now) div 1000"
    by (rule div_mult_self1) simp
  finally show ?thesis
    by (simp add: remainingTime_def)
qed

text \<open>
  C4: \<open>resendOTP\<close> with a valid token, while the OTP record of the token's email
  expires strictly after now, throws the 403 cooldown error whose message carries
  \<open>floor((expiresAt - now) / 1000)\<close>, and leaves the world as it was (the stored
  code and expiry are those of before; nothing is sent). That number is not
  negative, is at most the lifetime the record was written with, does not grow as
  time passes, and is one less a second later.
\<close>

theorem resendOTP_cooldown:
  assumes "verifyToken E (authorization req) = Inr decoded"
    and "otps w (c_email decoded) = Some r"
    and "now < expiresAt r"
  shows "resendOTP E now code req w =
           (Threw (ApiError 403
              (''You can't request another OTP before ''
                 @ show_int ((expiresAt r - now) div 1000) @ '' seconds.'')), w)
         \<and> 0 \<le> (expiresAt r - now) div 1000
         \<and> (\<forall>t0 ttl. expiresAt r = t0 + ttl * 1000 \<and> t0 \<le> now
               \<longrightarrow> (expiresAt r - now) div 1000 \<le> ttl)
         \<and> (\<forall>later. now \<le> later
               \<longrightarrow> (expiresAt r - later) div 1000 \<le> (expiresAt r - now) div 1000)
         \<and> (expiresAt r - (now + 1000)) div 1000 = (expiresAt r - now) div 1000 - 1"
proof -
  have "resendOTP E now code req w =
           (Threw (ApiError 403
              (''You can't request another OTP before ''
                 @ show_int ((expiresAt r - now) div 1000) @ '' seconds.'')), w)"
    using assms by (simp add: resendOTP_def cooldown_def cooldown_message_def remainingTime_def)
  moreover have "0 \<le> (expiresAt r - now) div 1000"
    using remainingTime_nonneg [OF assms(3)] by (simp add: remainingTime_def)
  moreover have "\<forall>t0 ttl. expiresAt r = t0 + ttl * 1000 \<and> t0 \<le> now
               \<longrightarrow> (expiresAt r - now) div 1000 \<le> ttl"
    using remainingTime_le_ttl by (simp add: remainingTime_def)
  moreover have "\<forall>later. now \<le> later
               \<longrightarrow> (expiresAt r - later) div 1000 \<le> (expiresAt r - now) div 1000"
    using remainingTime_antimono by (simp add: remainingTime_def)
  moreover have "(expiresAt r - (now + 1000)) div 1000 = (expiresAt r - now) div 1000 - 1"
    using remainingTime_second [of "expiresAt r" now] by (simp add: remainingTime_def)
  ultimately show ?thesis by blast
qed

theorem resendOTP_cooldown_witness:
  "verifyToken example_env (authorization example_request)
     = Inr \<lparr>c_id = ''a1'', c_email = ''ann@example.com'', c_role = ''admin''\<rparr>
   \<and> otps cooling_world ''ann@example.com'' = Some \<lparr>otp = ''111111'', expiresAt = 65000\<rparr>
   \<and> (5999 :: int) < 65000
   \<and> resendOTP example_env 5999 ''222222'' example_request cooling_world =
        (Threw (ApiError 403 ''You can't request another OTP before 59 seconds.''), cooling_world)"
proof -
  let ?d = "\<lparr>c_id = ''a1'', c_email = ''ann@example.com'', c_role = ''admin''\<rparr>"
  let ?r = "\<lparr>otp = ''111111'', expiresAt = 65000\<rparr>"
  have h1: "verifyToken example_env (authorization example_request) = Inr ?d"
    by (simp add: example_env_def example_request_def)
  have h2: "otps cooling_world (c_email ?d) = Some ?r"
    by (simp add: cooling_world_def)
  have h3: "(5999 :: int) < expiresAt ?r"
    by simp
  have m: "show_int ((expiresAt ?r - 5999) div 1000) = ''59''"
    by (simp add: show_int_def show_nat.simps digit_char_def)
  from resendOTP_cooldown [OF h1 h2 h3, of "''222222''"]
  have "resendOTP example_env 5999 ''222222'' example_request cooling_world =
          (Threw (ApiError 403
              (''You can't request another OTP before ''
                 @ show_int ((expiresAt ?r - 5999) div 1000) @ '' seconds.'')), cooling_world)"
    by (rule conjunct1)
  then have "resendOTP example_env 5999 ''222222'' example_request cooling_world =
        (Threw (ApiError 403 ''You can't request another OTP before 59 seconds.''), cooling_world)"
    unfolding m by simp
  with h1 h2 h3 show ?thesis by simp
qed

section \<open>Reset, delete, change\<close>

text \<open>
  C5: \<open>resetPassword\<close> with a valid token that has a role, a non-empty password and
  no user for the token's email: the success response "Password reset
  successfully." has been sent when the 404 is thrown, and the user collection is
  untouched.
\<close>

theorem resetPassword_unknown_user:
  assumes "verifyToken E (authorization req) = Inr decoded"
    and "c_role decoded \<noteq> []"
    and "body_password req \<noteq> []"
    and "findUserByEmail (c_email decoded) (users w) = None"
  shows "resetPassword E req w =
           (Threw (ApiError 404 ''User not found. Are you attempting something sneaky?''),
            w\<lparr>trace := trace w @
                 [Responded \<lparr>statusCode = 200, success = True,
                    message = ''Password reset successfully.'', data = Null, pages = None\<rparr>]\<rparr>)"
  using assms by (simp add: resetPassword_def sendResponse_def Let_def)

theorem resetPassword_unknown_user_witness:
  "verifyToken example_env (authorization example_request)
     = Inr \<lparr>c_id = ''a1'', c_email = ''ann@example.com'', c_role = ''admin''\<rparr>
   \<and> c_role \<lparr>c_id = ''a1'', c_email = ''ann@example.com'', c_role = ''admin''\<rparr> \<noteq> []
   \<and> body_password example_request \<noteq> []
   \<and> findUserByEmail ''ann@example.com'' (users (world_of [])) = None
   \<and> resetPassword example_env example_request (world_of []) =
        (Threw (ApiError 404 ''User not found. Are you attempting something sneaky?''),
         \<lparr>users = [], otps = Map.empty,
          trace = [Responded \<lparr>statusCode = 200, success = True,
                     message = ''Password reset successfully.'', data = Null, pages = None\<rparr>]\<rparr>)"
proof -
  let ?d = "\<lparr>c_id = ''a1'', c_email = ''ann@example.com'', c_role = ''admin''\<rparr>"
  have h1: "verifyToken example_env (authorization example_request) = Inr ?d"
    by (simp add: example_env_def example_request_def)
  have h2: "c_role ?d \<noteq> []"
    by simp
  have h3: "body_password example_request \<noteq> []"
    by (simp add: example_request_def)
  have h4: "findUserByEmail (c_email ?d) (users (world_of [])) = None"
    by (simp add: findUserByEmail_def world_of_def)
  have "resetPassword example_env example_request (world_of []) =
        (Threw (ApiError 404 ''User not found. Are you attempting something sneaky?''),
         (world_of [])\<lparr>trace := trace (world_of []) @
            [Responded \<lparr>statusCode = 200, success = True,
                     message = ''Password reset successfully.'', data = Null, pages = None\<rparr>]\<rparr>)"
    by (rule resetPassword_unknown_user [OF h1 h2 h3 h4])
  then have "resetPassword example_env example_request (world_of []) =
        (Threw (ApiError 404 ''User not found. Are you attempting something sneaky?''),
         \<lparr>users = [], otps = Map.empty,
          trace = [Responded \<lparr>statusCode = 200, success = True,
                     message = ''Password reset successfully.'', data = Null, pages = None\<rparr>]\<rparr>)"
    by (simp add: world_of_def)
  with h1 h2 h3 h4 show ?thesis by simp
qed

text \<open>
  C6: \<open>deleteUser\<close> on a user that is already soft-deleted throws the "already
  deleted" error and changes nothing, whoever asks.
\<close>

theorem deleteUser_already_deleted:
  assumes "findUserById (query_id req) (users w) = Some u"
    and "isDeleted u"
  shows "deleteUser req w = (Threw (ApiError 404 ''This account is already deleted.''), w)"
  using assms by (simp add: deleteUser_def catch_rewrap_def rewrap_def ApiError_def)

theorem deleteUser_already_deleted_witness:
  "findUserById (query_id example_request) (users (world_of [example_user\<lparr>isDeleted := True\<rparr>]))
     = Some (example_user\<lparr>isDeleted := True\<rparr>)
   \<and> isDeleted (example_user\<lparr>isDeleted := True\<rparr>)
   \<and> deleteUser example_request (world_of [example_user\<lparr>isDeleted := True\<rparr>]) =
        (Threw (ApiError 404 ''This account is already deleted.''),
         world_of [example_user\<lparr>isDeleted := True\<rparr>])"
proof -
  let ?u = "example_user\<lparr>isDeleted := True\<rparr>"
  have h1: "findUserById (query_id example_request) (users (world_of [?u])) = Some ?u"
    by (simp add: findUserById_def example_request_def world_of_def example_user_def)
  have h2: "isDeleted ?u"
    by simp
  from deleteUser_already_deleted [OF h1 h2] h1 h2 show ?thesis
    by blast
qed

lemma find_replace_user:
  assumes "find (\<lambda>u. email u = e) us = Some usr"
    and "distinct (map uid us)"
    and "email v = e" and "uid v = uid usr"
  shows "find (\<lambda>u. email u = e) (replace_user v us) = Some v"
  using assms
proof (induction us)
  case Nil
  then show ?case by simp
next
  case (Cons a us)
  show ?case
  proof (cases "email a = e")
    case True
    with Cons.prems show ?thesis by simp
  next
    case False
    with Cons.prems have f: "find (\<lambda>u. email u = e) us = Some usr" by simp
    then have "usr \<in> set us" by (auto simp: find_Some_iff)
    with Cons.prems(2) have "uid a \<noteq> uid usr" by auto
    with False Cons.IH [OF f] Cons.prems show ?thesis by simp
  qed
qed

lemma changePassword_unchanged_on_error:
  "fst (changePassword E req w) \<noteq> Completed \<Longrightarrow> snd (changePassword E req w) = w"
  by (auto simp: changePassword_def catch_rewrap_def split: option.splits sum.splits if_splits)

lemma changePassword_completed_verified:
  "fst (changePassword E req w) = Completed \<Longrightarrow>
     \<exists>usr. findUserByEmail (c_email (req_user req)) (users w) = Some usr
         \<and> argon2_verify E (password usr) (body_oldPassword req) = Inr True"
  by (auto simp: changePassword_def catch_rewrap_def split: option.splits sum.splits if_splits)

text \<open>
  C7: \<open>changePassword\<close> with both passwords given and the caller's user found: when
  \<open>argon2.verify\<close> says no, it throws 401 and the world is unchanged; when it says
  yes, the user is saved with the hash of the new password and after that the
  success response is sent (with unique ids, looking the user up again returns the
  new hash); and the user collection changes only when the old password verified.
\<close>

theorem changePassword_requires_old:
  assumes "body_oldPassword req \<noteq> []" and "body_newPassword req \<noteq> []"
    and "findUserByEmail (c_email (req_user req)) (users w) = Some usr"
  shows "(argon2_verify E (password usr) (body_oldPassword req) = Inr False \<longrightarrow>
            changePassword E req w = (Threw (ApiError 401 ''Old password is incorrect.''), w))
       \<and> (argon2_verify E (password usr) (body_oldPassword req) = Inr True \<longrightarrow>
            changePassword E req w =
              (Completed,
               w\<lparr>users := replace_user (usr\<lparr>password := argon2_hash E (body_newPassword req)\<rparr>) (users w),
                 trace := trace w @
                   [SavedUser (uid usr),
                    Responded \<lparr>statusCode = 200, success = True,
                       message = ''You have successfully changed your password.'',
                       data = Null, pages = None\<rparr>]\<rparr>)
            \<and> (distinct (map uid (users w)) \<longrightarrow>
                 findUserByEmail (c_email (req_user req)) (users (snd (changePassword E req w)))
                   = Some (usr\<lparr>password := argon2_hash E (body_newPassword req)\<rparr>)))
       \<and> (users (snd (changePassword E req w)) \<noteq> users w \<longrightarrow>
            argon2_verify E (password usr) (body_oldPassword req) = Inr True)"
proof -
  let ?v = "usr\<lparr>password := argon2_hash E (body_newPassword req)\<rparr>"
  have e: "email usr = c_email (req_user req)"
    using assms(3) by (auto simp: findUserByEmail_def find_Some_iff)
  have no: "argon2_verify E (password usr) (body_oldPassword req) = Inr False \<Longrightarrow>
            changePassword E req w = (Threw (ApiError 401 ''Old password is incorrect.''), w)"
    using assms by (simp add: changePassword_def catch_rewrap_def rewrap_def ApiError_def)
  have yes: "argon2_verify E (password usr) (body_oldPassword req) = Inr True \<Longrightarrow>
            changePassword E req w =
              (Completed,
               w\<lparr>users := replace_user ?v (users w),
                 trace := trace w @
                   [SavedUser (uid usr),
                    Responded \<lparr>statusCode = 200, success = True,
                       message = ''You have successfully changed your password.'',
                       data = Null, pages = None\<rparr>]\<rparr>)"
    using assms by (simp add: changePassword_def catch_rewrap_def save_def sendResponse_def)
  have stored: "argon2_verify E (password usr) (body_oldPassword req) = Inr True \<Longrightarrow>
      distinct (map uid (users w)) \<Longrightarrow>
      findUserByEmail (c_email (req_user req)) (users (snd (changePassword E req w))) = Some ?v"
    using find_replace_user [of "c_email (req_user req)" "users w" usr ?v] assms(3) e
    by (simp add: yes findUserByEmail_def)
  have only: "users (snd (changePassword E req w)) \<noteq> users w \<Longrightarrow>
            argon2_verify E (password usr) (body_oldPassword req) = Inr True"
    using changePassword_unchanged_on_error [of E req w]
      changePassword_completed_verified [of E req w] assms(3)
    by (cases "fst (changePassword E req w) = Completed") auto
  show ?thesis using no yes stored only by blast
qed

theorem changePassword_requires_old_witness:
  "body_oldPassword example_request \<noteq> [] \<and> body_newPassword example_request \<noteq> []
   \<and> findUserByEmail (c_email (req_user example_request)) (users (world_of [example_user]))
        = Some example_user
   \<and> argon2_verify example_env (password example_user) (body_oldPassword example_request) = Inr True
   \<and> distinct (map uid (users (world_of [example_user])))
   \<and> changePassword example_env example_request (world_of [example_user]) =
        (Completed,
         \<lparr>users = [example_user\<lparr>password := ''$argon2id$better''\<rparr>], otps = Map.empty,
          trace = [SavedUser ''a1'',
                   Responded \<lparr>statusCode = 200, success = True,
                     message = ''You have successfully changed your password.'',
                     data = Null, pages = None\<rparr>]\<rparr>)
   \<and> argon2_verify example_env (password example_user)
        (body_oldPassword (example_request\<lparr>body_oldPassword := ''guess''\<rparr>)) = Inr False
   \<and> changePassword example_env (example_request\<lparr>body_oldPassword := ''guess''\<rparr>)
        (world_of [example_user]) =
        (Threw (ApiError 401 ''Old password is incorrect.''), world_of [example_user])"
proof -
  let ?w = "world_of [example_user]"
  let ?bad = "example_request\<lparr>body_oldPassword := ''guess''\<rparr>"
  have h1: "body_oldPassword example_request \<noteq> []" and h2: "body_newPassword example_request \<noteq> []"
    by (simp_all add: example_request_def)
  have h3: "findUserByEmail (c_email (req_user example_request)) (users ?w) = Some example_user"
    by (simp add: findUserByEmail_def example_request_def world_of_def example_user_def)
  have ok: "argon2_verify example_env (password example_user) (body_oldPassword example_request)
              = Inr True"
    by (simp add: example_env_def example_user_def example_request_def)
  have d: "distinct (map uid (users ?w))"
    by (simp add: world_of_def)
  have g1: "body_oldPassword ?bad \<noteq> []" and g2: "body_newPassword ?bad \<noteq> []"
    by (simp_all add: example_request_def)
  have g3: "findUserByEmail (c_email (req_user ?bad)) (users ?w) = Some example_user"
    using h3 by simp
  have no: "argon2_verify example_env (password example_user) (body_oldPassword ?bad) = Inr False"
    by (simp add: example_env_def example_user_def)
  from changePassword_requires_old [OF h1 h2 h3, of example_env] ok
  have "changePassword example_env example_request ?w =
              (Completed,
               ?w\<lparr>users := replace_user
                     (example_user\<lparr>password := argon2_hash example_env (body_newPassword example_request)\<rparr>)
                     (users ?w),
                 trace := trace ?w @
                   [SavedUser (uid example_user),
                    Responded \<lparr>statusCode = 200, success = True,
                       message = ''You have successfully changed your password.'',
                       data = Null, pages = None\<rparr>]\<rparr>)"
    by blast
  then have yes: "changePassword example_env example_request ?w =
        (Completed,
         \<lparr>users = [example_user\<lparr>password := ''$argon2id$better''\<rparr>], otps = Map.empty,
          trace = [SavedUser ''a1'',
                   Responded \<lparr>statusCode = 200, success = True,
                     message = ''You have successfully changed your password.'',
                     data = Null, pages = None\<rparr>]\<rparr>)"
    by (simp add: world_of_def example_env_def example_request_def example_user_def)
  from changePassword_requires_old [OF g1 g2 g3, of example_env] no
  have bad: "changePassword example_env ?bad ?w =
        (Threw (ApiError 401 ''Old password is incorrect.''), ?w)"
    by blast
  show ?thesis using h1 h2 h3 ok d yes no bad by blast
qed

section \<open>The duplicate-key error handler\<close>

text \<open>The handler throws exactly when the regular expression finds no match.\<close>

lemma handlerDuplicateError_throws_iff:
  "isl (handlerDuplicateError msg) \<longleftrightarrow> match_quoted msg = None"
  by (simp add: handlerDuplicateError_def split: option.splits)

text \<open>A closing quote after the text does not make a line terminator of it.\<close>

lemma line_terminator_at_before_quote:
  "line_terminator_at (c # cs @ CHR 0x22 # post) = line_terminator_at (c # cs)"
proof (cases cs)
  case Nil
  then show ?thesis by (simp add: line_terminator_at_def)
next
  case (Cons a as)
  then show ?thesis by (cases as) (auto simp: line_terminator_at_def)
qed

lemma lazy_group_quoted:
  "CHR 0x22 \<notin> set g \<Longrightarrow> \<not> has_line_terminator g \<Longrightarrow>
     lazy_group (g @ CHR 0x22 # post) = Some g"
proof (induction g)
  case Nil
  then show ?case by simp
next
  case (Cons c g)
  from Cons.prems have "\<not> line_terminator_at (c # g @ CHR 0x22 # post)"
    by (simp add: line_terminator_at_before_quote)
  with Cons show ?case by auto
qed

text \<open>
  Where the message has a double-quoted text on one line after its first double
  quote, the handler returns \<open>success = false\<close>, status 409 and the message
  "<g> is already exists!" for that text \<open>g\<close>.
\<close>

lemma handlerDuplicateError_quoted:
  assumes "msg = pre @ CHR 0x22 # g @ CHR 0x22 # post"
    and "CHR 0x22 \<notin> set pre" and "CHR 0x22 \<notin> set g"
    and "\<not> has_line_terminator g"
  shows "handlerDuplicateError msg =
           Inr \<lparr>er_success = False, er_statusCode = 409, er_errorType = ''Duplicate Error'',
                er_errorMessage = g @ '' is already exists!'', er_errorDetails = msg\<rparr>"
proof -
  have lg: "lazy_group (g @ CHR 0x22 # post) = Some g"
    using assms(3,4) by (rule lazy_group_quoted)
  have "match_quoted (pre @ CHR 0x22 # g @ CHR 0x22 # post) = Some g"
    using assms(2) lg by (induction pre) auto
  then show ?thesis by (simp add: handlerDuplicateError_def assms(1))
qed

lemma handlerDuplicateError_email_example:
  "handlerDuplicateError (''dup key: { email: '' @ CHR 0x22 # ''a@b.co'' @ CHR 0x22 # '' }'') =
       Inr \<lparr>er_success = False, er_statusCode = 409, er_errorType = ''Duplicate Error'',
            er_errorMessage = ''a@b.co is already exists!'',
            er_errorDetails = ''dup key: { email: '' @ CHR 0x22 # ''a@b.co'' @ CHR 0x22 # '' }''\<rparr>"
proof -
  have h2: "CHR 0x22 \<notin> set ''dup key: { email: ''" by simp
  have h3: "CHR 0x22 \<notin> set ''a@b.co''" by simp
  have h4: "\<not> has_line_terminator ''a@b.co''" by (simp add: line_terminator_at_def)
  from handlerDuplicateError_quoted [OF refl h2 h3 h4, of "'' }''"]
  show ?thesis by simp
qed

text \<open>A line separator U+2028 inside the first quotes ends the attempt there: the
  match is the next quoted text that stays on one line.\<close>

lemma handlerDuplicateError_line_separator_example:
  "handlerDuplicateError
     (''{ a: '' @ CHR 0x22 # ''x'' @ [CHR 0xE2, CHR 0x80, CHR 0xA8] @ ''y'' @ CHR 0x22 #
        '', b: '' @ CHR 0x22 # ''z'' @ CHR 0x22 # '' }'') =
     Inr \<lparr>er_success = False, er_statusCode = 409, er_errorType = ''Duplicate Error'',
          er_errorMessage = '', b:  is already exists!'',
          er_errorDetails =
            ''{ a: '' @ CHR 0x22 # ''x'' @ [CHR 0xE2, CHR 0x80, CHR 0xA8] @ ''y'' @ CHR 0x22 #
            '', b: '' @ CHR 0x22 # ''z'' @ CHR 0x22 # '' }''\<rparr>"
  by (simp add: handlerDuplicateError_def line_terminator_at_def)

text \<open>
  C8: for every duplicate-key error the handler returns \<open>success = false\<close>, status
  409 and a message built from the first double-quoted text of the underlying
  message. The code does not: a duplicate-key message without double quotes, here
  that of a duplicate \<open>_id\<close>, gives a \<open>null\<close> match, and \<open>matches![1]\<close> throws a
  \<open>TypeError\<close> where an \<open>IErrorResponse\<close> was to be returned.
\<close>

theorem handlerDuplicateError_unquoted_throws:
  "handlerDuplicateError
     ''E11000 duplicate key error collection: app.users index: _id_ dup key: { _id: ObjectId('507f1f77bcf86cd799439011') }''
   = Inl (Error ''Cannot read properties of null (reading '1')'')"
  by (simp add: handlerDuplicateError_def)

section \<open>The admin list\<close>

lemma find_replicate:
  "find P (replicate n x) = (if 0 < n \<and> P x then Some x else None)"
  by (induction n) auto

text \<open>
  C9: \<open>getAllUsers\<close> with a valid token of an existing user, page 1, limit 10 and
  25 users that pass the filter answers 200 with the first ten rows and the
  pagination \<open>totalPage = 3\<close>, \<open>currentPage = 1\<close>, \<open>prevPage = 1\<close> (the \<open>null\<close> of "no
  previous page" rendered by \<open>?? 1\<close>), \<open>nextPage = 2\<close>, \<open>limit = 10\<close>,
  \<open>totalItem = 25\<close>.
\<close>

theorem getAllUsers_first_page_of_25:
  assumes "verifyToken E (authorization req) = Inr decoded"
    and "findUserById (c_id decoded) (users w) = Some adm"
    and "query_page req = Some 1" and "query_limit req = Some 10"
    and "length (filter (listFilter E (query_date req) (query_name req) (query_email req)
                            (query_role req) (query_requestStatus req)) (users w)) = 25"
  shows "getAllUsers E req w =
           (Completed,
            sendResponse
              \<lparr>statusCode = 200, success = True, message = ''User list retrieved successfully'',
               data = UserList (map (user_row_of E)
                        (take 10 (filter (listFilter E (query_date req) (query_name req)
                           (query_email req) (query_role req) (query_requestStatus req)) (users w)))),
               pages = Some \<lparr>totalPage = 3, currentPage = 1, prevPage = 1, nextPage = 2,
                             limit = 10, totalItem = 25\<rparr>\<rparr> w)"
  using assms
  by (simp add: getAllUsers_def getUserList_def or_default_def nullish_one_def catch_rewrap_def
      Let_def)

theorem getAllUsers_first_page_of_25_witness:
  "verifyToken example_env (authorization example_request)
     = Inr \<lparr>c_id = ''a1'', c_email = ''ann@example.com'', c_role = ''admin''\<rparr>
   \<and> findUserById ''a1'' (users listed_world) = Some example_user
   \<and> query_page example_request = Some 1 \<and> query_limit example_request = Some 10
   \<and> length (filter (listFilter example_env (query_date example_request)
         (query_name example_request) (query_email example_request)
         (query_role example_request) (query_requestStatus example_request))
           (users listed_world)) = 25
   \<and> getAllUsers example_env example_request listed_world =
           (Completed,
            sendResponse
              \<lparr>statusCode = 200, success = True, message = ''User list retrieved successfully'',
               data = UserList (replicate 10 (user_row_of example_env example_user)),
               pages = Some \<lparr>totalPage = 3, currentPage = 1, prevPage = 1, nextPage = 2,
                             limit = 10, totalItem = 25\<rparr>\<rparr> listed_world)"
proof -
  let ?d = "\<lparr>c_id = ''a1'', c_email = ''ann@example.com'', c_role = ''admin''\<rparr>"
  let ?f = "listFilter example_env (query_date example_request)
         (query_name example_request) (query_email example_request)
         (query_role example_request) (query_requestStatus example_request)"
  have h1: "verifyToken example_env (authorization example_request) = Inr ?d"
    by (simp add: example_env_def example_request_def)
  have h2: "findUserById (c_id ?d) (users listed_world) = Some example_user"
    by (simp add: findUserById_def listed_world_def world_of_def example_user_def find_replicate)
  have h3: "query_page example_request = Some 1" and h4: "query_limit example_request = Some 10"
    by (simp_all add: example_request_def)
  have f: "filter ?f (users listed_world) = replicate 25 example_user"
    by (simp add: example_env_def listed_world_def world_of_def)
  have h5: "length (filter ?f (users listed_world)) = 25"
    by (simp add: f)
  have t: "map (user_row_of example_env) (take 10 (filter ?f (users listed_world)))
             = replicate 10 (user_row_of example_env example_user)"
    by (simp add: f)
  from getAllUsers_first_page_of_25 [OF h1 h2 h3 h4 h5]
  have "getAllUsers example_env example_request listed_world =
           (Completed,
            sendResponse
              \<lparr>statusCode = 200, success = True, message = ''User list retrieved successfully'',
               data = UserList (replicate 10 (user_row_of example_env example_user)),
               pages = Some \<lparr>totalPage = 3, currentPage = 1, prevPage = 1, nextPage = 2,
                             limit = 10, totalItem = 25\<rparr>\<rparr> listed_world)"
    unfolding t .
  with h1 h2 h3 h4 h5 show ?thesis by simp
qed

section \<open>Seeding is idempotent\<close>

lemma find_append_email:
  "find P (xs @ ys) = (case find P xs of None \<Rightarrow> find P ys | Some x \<Rightarrow> Some x)"
  by (induction xs) auto

lemma seedAdmin_noop:
  "findUserByEmail (sd_email a) (users w) \<noteq> None \<Longrightarrow> seedAdmin E now a w = w"
  by (auto simp: seedAdmin_def)

lemma seedAdmin_keeps:
  "findUserByEmail e (users w) \<noteq> None \<Longrightarrow> findUserByEmail e (users (seedAdmin E now a w)) \<noteq> None"
  by (auto simp: seedAdmin_def UserModel_create_def findUserByEmail_def find_append_email
      split: option.splits)

lemma seedAdmin_present:
  "findUserByEmail (sd_email a) (users (seedAdmin E now a w)) \<noteq> None"
  by (auto simp: seedAdmin_def UserModel_create_def findUserByEmail_def find_append_email
      split: option.splits)

lemma seedSuperAdmin_present:
  "findUserByEmail (sd_email admin) (users (seedSuperAdmin E now w)) \<noteq> None"
  "findUserByEmail (sd_email admin2) (users (seedSuperAdmin E now w)) \<noteq> None"
  by (simp_all add: seedSuperAdmin_def seedAdmin_present seedAdmin_keeps)

lemma seedSuperAdmin_noop:
  "findUserByEmail (sd_email admin) (users w) \<noteq> None \<Longrightarrow>
   findUserByEmail (sd_email admin2) (users w) \<noteq> None \<Longrightarrow> seedSuperAdmin E now w = w"
  by (simp add: seedSuperAdmin_def seedAdmin_noop)

lemma seedAdmin_users:
  "users (seedAdmin E now a w) =
     users w @ (if findUserByEmail (sd_email a) (users w) = None
                then [\<lparr>uid = newObjectId E (users w), name = sd_name a, email = sd_email a,
                       password = hashPassword E (sd_password a), role = sd_role a,
                       isVerified = False, isDeleted = sd_isDeleted a, fcmToken = [],
                       image_publicFileURL = [], profile_status = [], phone = [], address = [],
                       createdAt = now, managerInfoId = None, isRequest = []\<rparr>]
                else [])"
  by (auto simp: seedAdmin_def UserModel_create_def)

lemma seed_emails_differ: "sd_email admin \<noteq> sd_email admin2"
  by (simp add: admin_def admin2_def)

lemma seedSuperAdmin_new_emails:
  "\<exists>new. users (seedSuperAdmin E now w) = users w @ new
      \<and> map email new = filter (\<lambda>e. findUserByEmail e (users w) = None)
                            [sd_email admin, sd_email admin2]
      \<and> list_all (\<lambda>u. role u = ''admin'' \<and> \<not> isDeleted u
                       \<and> password u = hashPassword E ''1qazxsw2'') new"
proof -
  let ?w1 = "seedAdmin E now admin w"
  have u1: "users ?w1 = users w @ (if findUserByEmail (sd_email admin) (users w) = None
                then [\<lparr>uid = newObjectId E (users w), name = sd_name admin, email = sd_email admin,
                       password = hashPassword E (sd_password admin), role = sd_role admin,
                       isVerified = False, isDeleted = sd_isDeleted admin, fcmToken = [],
                       image_publicFileURL = [], profile_status = [], phone = [], address = [],
                       createdAt = now, managerInfoId = None, isRequest = []\<rparr>]
                else [])"
    by (rule seedAdmin_users)
  have same: "findUserByEmail (sd_email admin2) (users ?w1) = findUserByEmail (sd_email admin2) (users w)"
    using seed_emails_differ
    by (auto simp: u1 findUserByEmail_def find_append_email split: option.splits)
  have u2: "users (seedSuperAdmin E now w) = users ?w1 @
       (if findUserByEmail (sd_email admin2) (users w) = None
                then [\<lparr>uid = newObjectId E (users ?w1), name = sd_name admin2, email = sd_email admin2,
                       password = hashPassword E (sd_password admin2), role = sd_role admin2,
                       isVerified = False, isDeleted = sd_isDeleted admin2, fcmToken = [],
                       image_publicFileURL = [], profile_status = [], phone = [], address = [],
                       createdAt = now, managerInfoId = None, isRequest = []\<rparr>]
                else [])"
    by (simp add: seedSuperAdmin_def seedAdmin_users [of E now admin2 ?w1] same)
  show ?thesis
    unfolding u2 u1
    by (auto simp: admin_def admin2_def)
qed

text \<open>
  C10: \<open>seedSuperAdmin\<close> run on its own result changes nothing (whatever the
  collaborators and the clock of the second run); run on a collection that
  already holds both admin emails it changes nothing; and in general it only
  appends, one document for each of the two emails that was absent.
\<close>

theorem seedSuperAdmin_idempotent:
  "seedSuperAdmin E' later (seedSuperAdmin E now w) = seedSuperAdmin E now w
   \<and> (findUserByEmail (sd_email admin) (users w) \<noteq> None
        \<and> findUserByEmail (sd_email admin2) (users w) \<noteq> None
      \<longrightarrow> seedSuperAdmin E now w = w)
   \<and> (\<exists>new. users (seedSuperAdmin E now w) = users w @ new
        \<and> map email new = filter (\<lambda>e. findUserByEmail e (users w) = None)
                              [sd_email admin, sd_email admin2])"
proof -
  have "seedSuperAdmin E' later (seedSuperAdmin E now w) = seedSuperAdmin E now w"
    by (rule seedSuperAdmin_noop) (rule seedSuperAdmin_present)+
  moreover have "findUserByEmail (sd_email admin) (users w) \<noteq> None
        \<and> findUserByEmail (sd_email admin2) (users w) \<noteq> None
      \<longrightarrow> seedSuperAdmin E now w = w"
    using seedSuperAdmin_noop by blast
  moreover have "\<exists>new. users (seedSuperAdmin E now w) = users w @ new
        \<and> map email new = filter (\<lambda>e. findUserByEmail e (users w) = None)
                              [sd_email admin, sd_email admin2]"
    using seedSuperAdmin_new_emails [of E now w] by blast
  ultimately show ?thesis by blast
qed

theorem seedSuperAdmin_idempotent_witness:
  "findUserByEmail (sd_email admin) (users seeded_world) \<noteq> None
   \<and> findUserByEmail (sd_email admin2) (users seeded_world) \<noteq> None
   \<and> seedSuperAdmin example_env 5 seeded_world = seeded_world
   \<and> seedSuperAdmin example_env 9 (seedSuperAdmin example_env 5 (world_of []))
       = seedSuperAdmin example_env 5 (world_of [])
   \<and> map email (users (seedSuperAdmin example_env 5 (world_of [])))
       = [''showershareny@gmail.com'', ''admin@gmail.com'']"
proof -
  have h1: "findUserByEmail (sd_email admin) (users seeded_world) \<noteq> None"
    by (simp add: findUserByEmail_def admin_def seeded_world_def world_of_def)
  have h2: "findUserByEmail (sd_email admin2) (users seeded_world) \<noteq> None"
    by (simp add: findUserByEmail_def admin2_def seeded_world_def world_of_def example_user_def)
  note t = seedSuperAdmin_idempotent [of example_env 5 example_env 5 seeded_world]
  note t0 = seedSuperAdmin_idempotent [of example_env 9 example_env 5 "world_of []"]
  from t h1 h2 have c1: "seedSuperAdmin example_env 5 seeded_world = seeded_world"
    by blast
  from t0 have c2: "seedSuperAdmin example_env 9 (seedSuperAdmin example_env 5 (world_of []))
       = seedSuperAdmin example_env 5 (world_of [])"
    by blast
  from t0 obtain new where n: "users (seedSuperAdmin example_env 5 (world_of [])) = users (world_of []) @ new"
     "map email new = filter (\<lambda>e. findUserByEmail e (users (world_of [])) = None)
                              [sd_email admin, sd_email admin2]"
    by blast
  have "map email (users (seedSuperAdmin example_env 5 (world_of [])))
          = map email (users (world_of []) @ new)"
    by (simp only: n(1))
  also have "\<dots> = [''showershareny@gmail.com'', ''admin@gmail.com'']"
    by (simp add: n(2) world_of_def findUserByEmail_def admin_def admin2_def)
  finally have c3: "map email (users (seedSuperAdmin example_env 5 (world_of [])))
       = [''showershareny@gmail.com'', ''admin@gmail.com'']" .
  show ?thesis using h1 h2 c1 c2 c3 by blast
qed

end
